theory Spec2Isabelle
  imports Main
begin

section \<open>JavaScript values and operators used by the configuration\<close>

text \<open>
  The configuration files read properties of an environment object and combine them with
  \<^verbatim>\<open>===\<close>, \<^verbatim>\<open>||\<close> and \<^verbatim>\<open>??\<close>. The values that can reach these
  operators are modelled by \<open>js_value\<close>; numbers are the integers (a port is an integer),
  so \<^verbatim>\<open>NaN\<close> and fractions are outside the model. Strict equality \<^verbatim>\<open>===\<close> on these
  values is equality of the datatype.
\<close>

datatype js_value = JUndefined | JNull | JBool bool | JNum int | JStr string

text \<open>JavaScript truthiness: \<^verbatim>\<open>undefined\<close>, \<^verbatim>\<open>null\<close>, \<^verbatim>\<open>false\<close>, \<^verbatim>\<open>0\<close> and
  \<^verbatim>\<open>""\<close> are falsy.\<close>

fun truthy :: "js_value \<Rightarrow> bool" where
  "truthy JUndefined = False"
| "truthy JNull = False"
| "truthy (JBool b) = b"
| "truthy (JNum n) = (n \<noteq> 0)"
| "truthy (JStr s) = (s \<noteq> [])"

text \<open>\<^verbatim>\<open>a || b\<close>: the left operand when it is truthy, otherwise the right one.\<close>

definition js_or :: "js_value \<Rightarrow> js_value \<Rightarrow> js_value" where
  "js_or a b = (if truthy a then a else b)"

text \<open>\<^verbatim>\<open>a ?? b\<close>: the right operand only when the left one is \<^verbatim>\<open>null\<close> or
  \<^verbatim>\<open>undefined\<close>.\<close>

fun js_nullish :: "js_value \<Rightarrow> js_value \<Rightarrow> js_value" where
  "js_nullish JUndefined b = b"
| "js_nullish JNull b = b"
| "js_nullish a b = a"

text \<open>An object read by property name; a property that is absent reads as
  \<^verbatim>\<open>undefined\<close>.\<close>

type_synonym js_object = "string \<Rightarrow> js_value"

text \<open>\<^verbatim>\<open>Array.prototype.findIndex\<close>: the index of the first element satisfying the
  predicate, \<open>-1\<close> when there is none.\<close>

fun findIndex_from :: "('a \<Rightarrow> bool) \<Rightarrow> 'a list \<Rightarrow> int \<Rightarrow> int" where
  "findIndex_from P [] i = - 1"
| "findIndex_from P (x # xs) i = (if P x then i else findIndex_from P xs (i + 1))"

definition findIndex :: "('a \<Rightarrow> bool) \<Rightarrow> 'a list \<Rightarrow> int" where
  "findIndex P xs = findIndex_from P xs 0"

section \<open>The shape of a bundler configuration\<close>

text \<open>A regular-expression literal \<^verbatim>\<open>/source/flags\<close>.\<close>

datatype regex = RegExp (source: string) (flags: string)

text \<open>The backslash, which a string literal of the logic cannot contain.\<close>

definition bsl :: string where
  "bsl = [CHR 0x5C]"

record modules_options =
  auto :: regex
  namedExport :: bool
  exportLocalsConvention :: string
  localIdentName :: string

record babel_options =
  presets :: "string list"

datatype loader_options =
    BabelOptions babel_options
  | CssLoaderOptions (modules: modules_options)

text \<open>
  An element of a rule's \<^verbatim>\<open>use\<close> array: a loader named by a string, the loader path
  exported by the stylesheet-extraction plugin (\<^verbatim>\<open>MiniCssExtractPlugin.loader\<close>, a path
  into that package and so different from every loader name written in the configuration),
  or an object \<^verbatim>\<open>{ loader, options }\<close>.
\<close>

datatype use_entry =
    Loader string
  | MiniCssExtractPlugin_loader
  | LoaderObject (loader: string) (options: loader_options)

record rule =
  test :: regex
  exclude :: "regex option"
  use :: "use_entry list option"
  rule_type :: "string option"
  generator_filename :: "string option"

record module_config =
  rules :: "rule list"

text \<open>Plugin instances are kept as the constructor call that builds them.\<close>

datatype plugin =
    HtmlWebpackPlugin (template: string) (collapseWhitespace: bool) (removeComments: bool)
  | CleanWebpackPlugin
  | MiniCssExtractPlugin (filename: string)
  | Dotenv
  | DefinePlugin "(string \<times> string) list option"
  | TerserWebpackPlugin

record optimization_config =
  splitChunks_chunks :: string
  minimizer :: "plugin list option"

text \<open>Calls into Node's \<^verbatim>\<open>path\<close> module are kept as calls.\<close>

datatype path_call = path_resolve string string | path_join string string

record dev_server =
  static_directory :: path_call
  port :: js_value
  open_browser :: bool
  hot :: bool
  compress :: bool
  historyApiFallback :: bool
  client_progress :: "bool option"

record performance_config =
  hints :: bool
  maxEntrypointSize :: nat
  maxAssetSize :: nat

record config =
  config_context :: path_call
  entry_main :: "string list"
  mode :: string
  output_filename :: string
  output_path :: string
  resolve_extensions :: "string list"
  resolve_alias :: "(string \<times> path_call) list"
  performance :: performance_config
  devServer :: dev_server
  optimization :: optimization_config
  plugins :: "plugin list"
  module :: module_config
  name :: "string option"

section \<open>The configuration factory\<close>

text \<open>
  The factory is \<^verbatim>\<open>module.exports = (env) => ...\<close>, applied to an environment object.
  Its inner functions close over \<^verbatim>\<open>isDev\<close>, which is their first argument here;
  \<^verbatim>\<open>__dirname\<close> is an argument of the factory. The rest parameters
  \<^verbatim>\<open>...preset\<close> and \<^verbatim>\<open>...addSupportFiles\<close> are lists of strings, in call order.
  A test \<^verbatim>\<open>xs.findIndex((ext) => ext === "s") !== -1\<close> is written as it stands, and
  \<^verbatim>\<open>push\<close> appends at the end.
\<close>

definition isDev :: "js_object \<Rightarrow> bool" where
  "isDev env = (env ''MODE'' = JStr ''development'' \<or> env ''MODE'' = JStr ''dev'')"

definition PORT :: "js_object \<Rightarrow> js_value" where
  "PORT env = js_or (env ''PORT'') (JNum 3000)"

definition MODE_DEV :: "js_object \<Rightarrow> js_value" where
  "MODE_DEV env = js_nullish (JBool (isDev env)) (JStr ''development'')"

definition getBabelOpts :: "string list \<Rightarrow> babel_options" where
  "getBabelOpts preset =
     (let opts = \<lparr>presets = [''@babel/preset-env'']\<rparr>
      in if length preset > 0 then opts\<lparr>presets := presets opts @ preset\<rparr> else opts)"

definition getOptimization :: "bool \<Rightarrow> optimization_config" where
  "getOptimization is_dev =
     (let config = \<lparr>splitChunks_chunks = ''all'', minimizer = None\<rparr>
      in if \<not> is_dev then config\<lparr>minimizer := Some [TerserWebpackPlugin]\<rparr> else config)"

definition css_loader_modules :: use_entry where
  "css_loader_modules =
     LoaderObject ''css-loader''
       (CssLoaderOptions
          \<lparr>auto = RegExp (bsl @ ''.module'' @ bsl @ ''.'' @ bsl @ ''w+'') ''i'',
           namedExport = False,
           exportLocalsConvention = ''as-is'',
           localIdentName = ''[folder]__[local]___[hash:base64:5]''\<rparr>)"

definition getStyleLoaders :: "bool \<Rightarrow> string list \<Rightarrow> use_entry list" where
  "getStyleLoaders is_dev preset =
     (let config = [if is_dev then Loader ''style-loader'' else MiniCssExtractPlugin_loader];
          config = (if findIndex (\<lambda>ext. ext = ''css-modules'') preset \<noteq> - 1
                    then config @ [css_loader_modules]
                    else config @ [Loader ''css-loader'']);
          config = (if findIndex (\<lambda>ext. ext = ''tailwind'') preset \<noteq> - 1
                    then config @ [Loader ''postcss-loader'']
                    else config);
          config = (if findIndex (\<lambda>ext. ext = ''scss'') preset \<noteq> - 1
                    then config @ [Loader ''sass-loader'']
                    else config)
      in config)"

text \<open>The object literals of \<^verbatim>\<open>getModuleRules\<close>, one definition per rule.\<close>

definition css_rule :: "bool \<Rightarrow> string list \<Rightarrow> rule" where
  "css_rule is_dev stylesPreset =
     \<lparr>test = RegExp (bsl @ ''.css$'') '''', exclude = None,
      use = Some (getStyleLoaders is_dev stylesPreset),
      rule_type = None, generator_filename = None\<rparr>"

definition image_rule :: rule where
  "image_rule =
     \<lparr>test = RegExp (bsl @ ''.(png|svg|jpg|jpeg|gif)$'') '''', exclude = None, use = None,
      rule_type = Some ''asset/resource'', generator_filename = Some ''assets/[name][ext]''\<rparr>"

definition font_rule :: rule where
  "font_rule =
     \<lparr>test = RegExp (bsl @ ''.(ttf|woff|eot|woff2)$'') '''', exclude = None, use = None,
      rule_type = Some ''asset/resource'',
      generator_filename = Some ''assets/fonts/[name][ext]''\<rparr>"

definition babel_rule :: "string \<Rightarrow> string list \<Rightarrow> rule" where
  "babel_rule src preset =
     \<lparr>test = RegExp src '''', exclude = Some (RegExp ''node_modules'' ''''),
      use = Some [LoaderObject ''babel-loader'' (BabelOptions (getBabelOpts preset))],
      rule_type = None, generator_filename = None\<rparr>"

definition js_rule :: rule where
  "js_rule = babel_rule (bsl @ ''.js$'') []"

definition scss_rule :: "bool \<Rightarrow> string list \<Rightarrow> rule" where
  "scss_rule is_dev stylesPreset =
     \<lparr>test = RegExp (bsl @ ''.s[ac]ss$'') '''', exclude = None,
      use = Some (getStyleLoaders is_dev (stylesPreset @ [''scss''])),
      rule_type = None, generator_filename = None\<rparr>"

definition xml_rule :: rule where
  "xml_rule =
     \<lparr>test = RegExp (bsl @ ''.xml$'') '''', exclude = None, use = Some [Loader ''xml-loader''],
      rule_type = None, generator_filename = None\<rparr>"

definition csv_rule :: rule where
  "csv_rule =
     \<lparr>test = RegExp (bsl @ ''.csv$'') '''', exclude = None, use = Some [Loader ''csv-loader''],
      rule_type = None, generator_filename = None\<rparr>"

definition ts_rule :: rule where
  "ts_rule = babel_rule (bsl @ ''.ts$'') [''@babel/preset-typescript'']"

definition react_rule :: "string list \<Rightarrow> rule" where
  "react_rule addSupportFiles =
     (let loaderOptions = [''@babel/preset-react''];
          loaderOptions = (if findIndex (\<lambda>ext. ext = ''ts'') addSupportFiles \<noteq> - 1
                           then loaderOptions @ [''@babel/preset-typescript'']
                           else loaderOptions)
      in babel_rule (bsl @ ''.[jt]sx$'') loaderOptions)"

text \<open>The local constant \<^verbatim>\<open>stylesPreset\<close> of \<^verbatim>\<open>getModuleRules\<close>.\<close>

definition stylesPreset_of :: "string list \<Rightarrow> string list" where
  "stylesPreset_of addSupportFiles =
     (let stylesPreset = [];
          stylesPreset = (if findIndex (\<lambda>ext. ext = ''tailwind'') addSupportFiles \<noteq> - 1
                          then stylesPreset @ [''tailwind''] else stylesPreset);
          stylesPreset = (if findIndex (\<lambda>ext. ext = ''css-modules'') addSupportFiles \<noteq> - 1
                          then stylesPreset @ [''css-modules''] else stylesPreset)
      in stylesPreset)"

definition getModuleRules :: "bool \<Rightarrow> string list \<Rightarrow> module_config" where
  "getModuleRules is_dev addSupportFiles =
     (let stylesPreset = stylesPreset_of addSupportFiles;
          config =\<lparr>rules = [css_rule is_dev stylesPreset, image_rule, font_rule, js_rule]\<rparr>;
          config = (if findIndex (\<lambda>ext. ext = ''scss'') addSupportFiles \<noteq> - 1
                    then config\<lparr>rules := rules config @ [scss_rule is_dev stylesPreset]\<rparr>
                    else config);
          config = (if findIndex (\<lambda>ext. ext = ''xml'') addSupportFiles \<noteq> - 1
                    then config\<lparr>rules := rules config @ [xml_rule]\<rparr>
                    else config);
          config = (if findIndex (\<lambda>ext. ext = ''csv'') addSupportFiles \<noteq> - 1
                    then config\<lparr>rules := rules config @ [csv_rule]\<rparr>
                    else config);
          config = (if findIndex (\<lambda>ext. ext = ''ts'') addSupportFiles \<noteq> - 1
                    then config\<lparr>rules := rules config @ [ts_rule]\<rparr>
                    else config);
          config = (if findIndex (\<lambda>ext. ext = ''react'') addSupportFiles \<noteq> - 1
                    then config\<lparr>rules := rules config @ [react_rule addSupportFiles]\<rparr>
                    else config)
      in config)"

definition mainConfigOptions :: "string \<Rightarrow> js_object \<Rightarrow> config" where
  "mainConfigOptions dirname env =
     \<lparr>config_context = path_resolve dirname ''src'',
      entry_main = [''@babel/polyfill'', ''./index.js''],
      mode = (if truthy (MODE_DEV env) then ''development'' else ''production''),
      output_filename = ''[name].[hash].js'',
      output_path = dirname @ ''/dist'',
      resolve_extensions = [''.js'', ''.scss'', ''.css''],
      resolve_alias = [(''@'', path_resolve dirname ''src'')],
      performance = \<lparr>hints = False, maxEntrypointSize = 512000, maxAssetSize = 512000\<rparr>,
      devServer =
        \<lparr>static_directory = path_join dirname ''dist'',
         port = PORT env,
         open_browser = True,
         hot = True,
         compress = True,
         historyApiFallback = True,
         client_progress = Some True\<rparr>,
      optimization = getOptimization (isDev env),
      plugins =
        [HtmlWebpackPlugin ''./index.html''
           (if isDev env then False else True) (if isDev env then False else True),
         CleanWebpackPlugin,
         MiniCssExtractPlugin ''[name].[hash].css'',
         Dotenv],
      module = getModuleRules (isDev env) [''scss''],
      name = None\<rparr>"

text \<open>The value of \<^verbatim>\<open>module.exports(env)\<close>: four named variants, each the main options
  with some properties replaced.\<close>

definition webpack_factory :: "string \<Rightarrow> js_object \<Rightarrow> config list" where
  "webpack_factory dirname env =
     (let main_opts = mainConfigOptions dirname env;
          tsx_extensions = [''.js'', ''.jsx'', ''.ts'', ''.tsx'', ''.scss'', ''.css''];
          tsx_alias = [(''@'', path_resolve dirname ''src'')]
      in [main_opts
            \<lparr>name := Some ''html-scss-js'',
             entry_main := [''@babel/polyfill'', ''./index.js'']\<rparr>,
          main_opts
            \<lparr>name := Some ''html-scss-js-tailwind'',
             entry_main := [''@babel/polyfill'', ''./index.js''],
             module := getModuleRules (isDev env) [''scss'', ''tailwind'']\<rparr>,
          main_opts
            \<lparr>name := Some ''react-ts-scss-cssModules'',
             entry_main := [''@babel/polyfill'', ''./index.tsx''],
             resolve_extensions := tsx_extensions,
             resolve_alias := tsx_alias,
             module := getModuleRules (isDev env) [''scss'', ''react'', ''ts'', ''css-modules'']\<rparr>,
          main_opts
            \<lparr>name := Some ''react-ts-scss-cssModules-tailwind'',
             entry_main := [''@babel/polyfill'', ''./index.tsx''],
             resolve_extensions := tsx_extensions,
             resolve_alias := tsx_alias,
             module :=
               getModuleRules (isDev env)
                 [''scss'', ''react'', ''ts'', ''css-modules'', ''tailwind'']\<rparr>])"

section \<open>The static configuration file\<close>

text \<open>
  The file \<^verbatim>\<open>webpack.config.js\<close> exports one configuration object built at load time
  from \<^verbatim>\<open>process.env\<close>, with the same \<^verbatim>\<open>isDev\<close>, \<^verbatim>\<open>PORT\<close>,
  \<^verbatim>\<open>MODE_DEV\<close>, \<^verbatim>\<open>getBabelOpts\<close> and \<^verbatim>\<open>getOptimization\<close> as the factory.
  Its own versions of the other functions carry the prefix \<open>wc\<close>. The argument
  \<open>process_env\<close> is \<^verbatim>\<open>process.env\<close> as it is once the \<^verbatim>\<open>.env\<close> file has been
  loaded, and \<open>dotenv_parsed\<close> is \<^verbatim>\<open>dotenv.parsed\<close>. A preset that is
  \<^verbatim>\<open>undefined\<close> is \<open>None\<close>.
\<close>

definition wc_getStyleLoaders :: "bool \<Rightarrow> string option list \<Rightarrow> use_entry list" where
  "wc_getStyleLoaders is_dev preset =
     (let config = [if is_dev then Loader ''style-loader'' else MiniCssExtractPlugin_loader,
                    Loader ''css-loader''];
          config = (if findIndex (\<lambda>ext. ext = Some ''tailwind'') preset \<noteq> - 1
                    then config @ [Loader ''postcss-loader'']
                    else config);
          config = (if findIndex (\<lambda>ext. ext = Some ''scss'') preset \<noteq> - 1
                    then config @ [Loader ''sass-loader'']
                    else config)
      in config)"

definition wc_css_rule :: "bool \<Rightarrow> string option \<Rightarrow> rule" where
  "wc_css_rule is_dev tailwindPreset =
     \<lparr>test = RegExp (bsl @ ''.css$'') '''', exclude = None,
      use = Some (wc_getStyleLoaders is_dev [tailwindPreset]),
      rule_type = None, generator_filename = None\<rparr>"

definition wc_image_rule :: rule where
  "wc_image_rule =
     \<lparr>test = RegExp (bsl @ ''.(png|svg|jpg|jpeg|gif)$'') '''', exclude = None,
      use = Some [Loader ''file-loader''], rule_type = None, generator_filename = None\<rparr>"

definition wc_font_rule :: rule where
  "wc_font_rule =
     \<lparr>test = RegExp (bsl @ ''.(ttf|woff|eot|woff2)$'') '''', exclude = None,
      use = Some [Loader ''file-loader''], rule_type = None, generator_filename = None\<rparr>"

definition wc_scss_rule :: "bool \<Rightarrow> string list \<Rightarrow> rule" where
  "wc_scss_rule is_dev addSupportFiles =
     (let presets = [''scss''];
          presets = (if findIndex (\<lambda>ext. ext = ''tailwind'') addSupportFiles \<noteq> - 1
                     then presets @ [''tailwind''] else presets)
      in \<lparr>test = RegExp (bsl @ ''.s[ac]ss$'') '''', exclude = None,
          use = Some (wc_getStyleLoaders is_dev (map Some presets)),
          rule_type = None, generator_filename = None\<rparr>)"

definition wc_ts_rule :: rule where
  "wc_ts_rule = babel_rule (bsl @ ''.ts$'') [''ts'']"

definition wc_react_rule :: rule where
  "wc_react_rule = babel_rule (bsl @ ''.jsx$'') [''@babel/preset-react'']"

definition wc_getModuleRules :: "bool \<Rightarrow> string list \<Rightarrow> module_config" where
  "wc_getModuleRules is_dev addSupportFiles =
     (let tailwindPreset = (if findIndex (\<lambda>ext. ext = ''tailwind'') addSupportFiles \<noteq> - 1
                            then Some ''tailwind'' else None);
          config = \<lparr>rules = [wc_css_rule is_dev tailwindPreset, wc_image_rule, wc_font_rule,
                              js_rule]\<rparr>;
          config = (if findIndex (\<lambda>ext. ext = ''scss'') addSupportFiles \<noteq> - 1
                    then config\<lparr>rules := rules config @ [wc_scss_rule is_dev addSupportFiles]\<rparr>
                    else config);
          config = (if findIndex (\<lambda>ext. ext = ''xml'') addSupportFiles \<noteq> - 1
                    then config\<lparr>rules := rules config @ [xml_rule]\<rparr>
                    else config);
          config = (if findIndex (\<lambda>ext. ext = ''csv'') addSupportFiles \<noteq> - 1
                    then config\<lparr>rules := rules config @ [csv_rule]\<rparr>
                    else config);
          config = (if findIndex (\<lambda>ext. ext = ''ts'') addSupportFiles \<noteq> - 1
                    then config\<lparr>rules := rules config @ [wc_ts_rule]\<rparr>
                    else config);
          config = (if findIndex (\<lambda>ext. ext = ''react'') addSupportFiles \<noteq> - 1
                    then config\<lparr>rules := rules config @ [wc_react_rule]\<rparr>
                    else config)
      in config)"

definition wc_exports ::
    "string \<Rightarrow> js_object \<Rightarrow> (string \<times> string) list option \<Rightarrow> config" where
  "wc_exports dirname process_env dotenv_parsed =
     \<lparr>config_context = path_resolve dirname ''.'',
      entry_main = [''@babel/polyfill'', ''./src/index.js''],
      mode = (if truthy (MODE_DEV process_env) then ''development'' else ''production''),
      output_filename = ''[name].[hash].js'',
      output_path = dirname @ ''/dist'',
      resolve_extensions = [''.js'', ''.jsx'', ''.ts'', ''.tsx'', ''.scss'', ''.css''],
      resolve_alias = [(''@'', path_resolve dirname ''src'')],
      performance = \<lparr>hints = False, maxEntrypointSize = 512000, maxAssetSize = 512000\<rparr>,
      devServer =
        \<lparr>static_directory = path_join dirname ''dist'',
         port = PORT process_env,
         open_browser = True,
         hot = True,
         compress = True,
         historyApiFallback = True,
         client_progress = None\<rparr>,
      optimization = getOptimization (isDev process_env),
      plugins =
        [HtmlWebpackPlugin ''./src/index.html''
           (if isDev process_env then False else True)
           (if isDev process_env then False else True),
         CleanWebpackPlugin,
         MiniCssExtractPlugin ''[name].[hash].css'',
         DefinePlugin dotenv_parsed],
      module = wc_getModuleRules (isDev process_env) [''scss''],
      name = None\<rparr>"

section \<open>Reading the tables\<close>

text \<open>The properties speak of a rule's processor chain and of the presets handed to the
  syntax-downleveling loader; these functions read them off a rule.\<close>

definition chain :: "rule \<Rightarrow> use_entry list" where
  "chain r = (case use r of None \<Rightarrow> [] | Some us \<Rightarrow> us)"

fun entry_presets :: "use_entry \<Rightarrow> string list" where
  "entry_presets (LoaderObject l (BabelOptions opts)) = presets opts"
| "entry_presets e = []"

definition rule_presets :: "rule \<Rightarrow> string list" where
  "rule_presets r = concat (map entry_presets (chain r))"

text \<open>The stylesheet rules are the two whose pattern is \<^verbatim>\<open>/\.css$/\<close> or
  \<^verbatim>\<open>/\.s[ac]ss$/\<close>; \<open>style_chains\<close> lists their processor chains.\<close>

definition is_style_rule :: "rule \<Rightarrow> bool" where
  "is_style_rule r =
     (test r = RegExp (bsl @ ''.css$'') [] \<or> test r = RegExp (bsl @ ''.s[ac]ss$'') [])"

definition style_chains :: "module_config \<Rightarrow> use_entry list list" where
  "style_chains m = map chain (filter is_style_rule (rules m))"

text \<open>Replacing the plain \<^verbatim>\<open>"css-loader"\<close> entry of a chain by the modules-configured
  one, and leaving every other entry as it is.\<close>

fun with_css_modules :: "use_entry \<Rightarrow> use_entry" where
  "with_css_modules (Loader s) = (if s = ''css-loader'' then css_loader_modules else Loader s)"
| "with_css_modules e = e"

definition rule_with_css_modules :: "rule \<Rightarrow> rule" where
  "rule_with_css_modules r = r\<lparr>use := map_option (map with_css_modules) (use r)\<rparr>"

section \<open>The rule count as the specification words it\<close>

text \<open>The specification counts three default rules and one further rule for each
  recognized flag that is supplied. This definition follows those words, for comparison
  with the table that \<open>getModuleRules\<close> builds.\<close>

definition spec_recognized_flags :: "string list" where
  "spec_recognized_flags = [''scss'', ''tailwind'', ''css-modules'', ''xml'', ''csv'', ''ts'', ''react'']"

definition spec_rule_count :: "string list \<Rightarrow> nat" where
  "spec_rule_count fs = 3 + length (filter (\<lambda>f. f \<in> set fs) spec_recognized_flags)"

section \<open>Membership tests and the shape of the tables\<close>

lemma findIndex_from_none:
  "0 \<le> i \<Longrightarrow> (findIndex_from P xs i = - 1) = (\<not> list_ex P xs)"
  by (induction xs arbitrary: i) auto

lemma findIndex_eq_none: "(findIndex (\<lambda>ext. ext = s) xs = - 1) = (s \<notin> set xs)"
  by (simp add: findIndex_def findIndex_from_none list_ex_iff)

lemma getStyleLoaders_chain:
  "getStyleLoaders d p =
     [if d then Loader ''style-loader'' else MiniCssExtractPlugin_loader,
      if ''css-modules'' \<in> set p then css_loader_modules else Loader ''css-loader'']
     @ (if ''tailwind'' \<in> set p then [Loader ''postcss-loader''] else [])
     @ (if ''scss'' \<in> set p then [Loader ''sass-loader''] else [])"
  by (simp add: getStyleLoaders_def findIndex_eq_none)

lemma stylesPreset_of_eq:
  "stylesPreset_of fs =
     (if ''tailwind'' \<in> set fs then [''tailwind''] else [])
     @ (if ''css-modules'' \<in> set fs then [''css-modules''] else [])"
  by (simp add: stylesPreset_of_def findIndex_eq_none)

lemma react_rule_eq:
  "react_rule fs =
     babel_rule (bsl @ ''.[jt]sx$'')
       (''@babel/preset-react'' # (if ''ts'' \<in> set fs then [''@babel/preset-typescript''] else []))"
  by (simp add: react_rule_def findIndex_eq_none)

lemma getModuleRules_eq:
  "getModuleRules d fs =
     \<lparr>rules =
        [css_rule d (stylesPreset_of fs), image_rule, font_rule, js_rule]
        @ (if ''scss'' \<in> set fs then [scss_rule d (stylesPreset_of fs)] else [])
        @ (if ''xml'' \<in> set fs then [xml_rule] else [])
        @ (if ''csv'' \<in> set fs then [csv_rule] else [])
        @ (if ''ts'' \<in> set fs then [ts_rule] else [])
        @ (if ''react'' \<in> set fs then [react_rule fs] else [])\<rparr>"
  by (simp add: getModuleRules_def findIndex_eq_none Let_def)

lemma wc_getModuleRules_eq:
  "wc_getModuleRules d fs =
     \<lparr>rules =
        [wc_css_rule d (if ''tailwind'' \<in> set fs then Some ''tailwind'' else None),
         wc_image_rule, wc_font_rule, js_rule]
        @ (if ''scss'' \<in> set fs then [wc_scss_rule d fs] else [])
        @ (if ''xml'' \<in> set fs then [xml_rule] else [])
        @ (if ''csv'' \<in> set fs then [csv_rule] else [])
        @ (if ''ts'' \<in> set fs then [wc_ts_rule] else [])
        @ (if ''react'' \<in> set fs then [wc_react_rule] else [])\<rparr>"
  by (simp add: wc_getModuleRules_def findIndex_eq_none Let_def)

lemma getModuleRules_flags_only:
  assumes "(''tailwind'' \<in> set fs) = (''tailwind'' \<in> set gs)"
    and "(''css-modules'' \<in> set fs) = (''css-modules'' \<in> set gs)"
    and "(''scss'' \<in> set fs) = (''scss'' \<in> set gs)"
    and "(''xml'' \<in> set fs) = (''xml'' \<in> set gs)"
    and "(''csv'' \<in> set fs) = (''csv'' \<in> set gs)"
    and "(''ts'' \<in> set fs) = (''ts'' \<in> set gs)"
    and "(''react'' \<in> set fs) = (''react'' \<in> set gs)"
  shows "getModuleRules d fs = getModuleRules d gs"
  using assms by (simp add: getModuleRules_eq stylesPreset_of_eq react_rule_eq)

section \<open>C1: the module-rule table\<close>

text \<open>
  C1, as the specification states it, says that the table holds the three default rules
  (image, font, script) and one more rule for each recognized flag supplied. With no flag
  at all the table already has four rules, the first being the stylesheet rule for
  \<^verbatim>\<open>/\.css$/\<close>, so it differs both in length and in content from what C1 says.
\<close>

theorem module_rule_table_not_three_defaults:
  "length (rules (getModuleRules False [])) \<noteq> spec_rule_count []
   \<and> rules (getModuleRules False []) \<noteq> [image_rule, font_rule, js_rule]"
  by (simp add: getModuleRules_eq spec_rule_count_def spec_recognized_flags_def)

text \<open>
  C1, amended. For every mode and every flag list, the table built by \<open>getModuleRules\<close> is
  the four default rules (stylesheet \<^verbatim>\<open>.css\<close>, image assets, font assets, script files)
  in this order, followed by one rule for each of the flags \<^verbatim>\<open>scss\<close>, \<^verbatim>\<open>xml\<close>,
  \<^verbatim>\<open>csv\<close>, \<^verbatim>\<open>ts\<close>, \<^verbatim>\<open>react\<close> that is supplied, in this order. The flags
  \<^verbatim>\<open>tailwind\<close> and \<^verbatim>\<open>css-modules\<close> append no rule. The table of the static
  configuration file has the same length.
\<close>

theorem module_rule_table_four_defaults:
  "rules (getModuleRules d fs) =
     [css_rule d (stylesPreset_of fs), image_rule, font_rule, js_rule]
     @ (if ''scss'' \<in> set fs then [scss_rule d (stylesPreset_of fs)] else [])
     @ (if ''xml'' \<in> set fs then [xml_rule] else [])
     @ (if ''csv'' \<in> set fs then [csv_rule] else [])
     @ (if ''ts'' \<in> set fs then [ts_rule] else [])
     @ (if ''react'' \<in> set fs then [react_rule fs] else [])
   \<and> length (rules (getModuleRules d fs)) =
       4 + length (filter (\<lambda>f. f \<in> set fs) [''scss'', ''xml'', ''csv'', ''ts'', ''react''])
   \<and> length (rules (wc_getModuleRules d fs)) =
       4 + length (filter (\<lambda>f. f \<in> set fs) [''scss'', ''xml'', ''csv'', ''ts'', ''react''])"
proof -
  have table: "rules (getModuleRules d fs) =
     [css_rule d (stylesPreset_of fs), image_rule, font_rule, js_rule]
     @ (if ''scss'' \<in> set fs then [scss_rule d (stylesPreset_of fs)] else [])
     @ (if ''xml'' \<in> set fs then [xml_rule] else [])
     @ (if ''csv'' \<in> set fs then [csv_rule] else [])
     @ (if ''ts'' \<in> set fs then [ts_rule] else [])
     @ (if ''react'' \<in> set fs then [react_rule fs] else [])"
    by (simp add: getModuleRules_eq)
  have count: "length (rules (getModuleRules d fs)) =
       4 + length (filter (\<lambda>f. f \<in> set fs) [''scss'', ''xml'', ''csv'', ''ts'', ''react''])"
    unfolding table by simp
  have wc_count: "length (rules (wc_getModuleRules d fs)) =
       4 + length (filter (\<lambda>f. f \<in> set fs) [''scss'', ''xml'', ''csv'', ''ts'', ''react''])"
    by (simp add: wc_getModuleRules_eq)
  show ?thesis
    using table count wc_count by (intro conjI)
qed

text \<open>C1 at the flags of the variant \<^verbatim>\<open>react-ts-scss-cssModules-tailwind\<close>.\<close>

theorem module_rule_table_four_defaults_witness:
  "length (rules (getModuleRules False [''scss'', ''react'', ''ts'', ''css-modules'', ''tailwind'']))
     = 7
   \<and> map test (rules (getModuleRules False
         [''scss'', ''react'', ''ts'', ''css-modules'', ''tailwind''])) =
       [RegExp (bsl @ ''.css$'') [], RegExp (bsl @ ''.(png|svg|jpg|jpeg|gif)$'') [],
        RegExp (bsl @ ''.(ttf|woff|eot|woff2)$'') [], RegExp (bsl @ ''.js$'') [],
        RegExp (bsl @ ''.s[ac]ss$'') [], RegExp (bsl @ ''.ts$'') [],
        RegExp (bsl @ ''.[jt]sx$'') []]"
  using module_rule_table_four_defaults [of False "[''scss'', ''react'', ''ts'', ''css-modules'', ''tailwind'']"]
  by (simp add: css_rule_def image_rule_def font_rule_def js_rule_def scss_rule_def ts_rule_def
      react_rule_eq babel_rule_def)


lemma mode_eq: "(if truthy (MODE_DEV env) then ''development'' else ''production'') =
    (if isDev env then ''development'' else ''production'')"
  by (simp add: MODE_DEV_def)

lemma factory_cases:
  assumes "cfg \<in> set (wc_exports dirname env parsed # webpack_factory dirname env)"
  shows "mode cfg = (if isDev env then ''development'' else ''production'')
       \<and> optimization cfg = getOptimization (isDev env)
       \<and> port (devServer cfg) = PORT env"
  using assms
  by (auto simp add: webpack_factory_def mainConfigOptions_def wc_exports_def Let_def mode_eq)

section \<open>C2: minification follows the mode\<close>

text \<open>
  C2. In every configuration produced (each of the four variants of the factory, which
  cover its flag sets, and the export of the static file), a configuration in development
  mode has no minimizer and a configuration in production mode has the Terser minimizer.
  The mode input \<^verbatim>\<open>development\<close> gives development mode and \<^verbatim>\<open>production\<close> gives
  production mode. \<open>getOptimization\<close> itself takes no flags.
\<close>

theorem minimizer_follows_mode:
  assumes "cfg \<in> set (wc_exports dirname env parsed # webpack_factory dirname env)"
  shows "(mode cfg = ''development'' \<longrightarrow> minimizer (optimization cfg) = None)
       \<and> (mode cfg = ''production'' \<longrightarrow>
            minimizer (optimization cfg) = Some [TerserWebpackPlugin])
       \<and> (env ''MODE'' = JStr ''development'' \<longrightarrow> mode cfg = ''development'')
       \<and> (env ''MODE'' = JStr ''production'' \<longrightarrow> mode cfg = ''production'')
       \<and> minimizer (getOptimization True) = None
       \<and> minimizer (getOptimization False) = Some [TerserWebpackPlugin]"
  using factory_cases [OF assms]
  by (simp add: getOptimization_def isDev_def)

text \<open>The development and the production case of C2 at concrete environments.\<close>

theorem minimizer_follows_mode_witness:
  "wc_exports ''/app'' ((\<lambda>k. JUndefined)(''MODE'' := JStr ''development'')) None
     \<in> set (wc_exports ''/app'' ((\<lambda>k. JUndefined)(''MODE'' := JStr ''development'')) None
            # webpack_factory ''/app'' ((\<lambda>k. JUndefined)(''MODE'' := JStr ''development'')))
   \<and> mode (wc_exports ''/app'' ((\<lambda>k. JUndefined)(''MODE'' := JStr ''development'')) None)
       = ''development''
   \<and> minimizer (optimization
        (wc_exports ''/app'' ((\<lambda>k. JUndefined)(''MODE'' := JStr ''development'')) None)) = None
   \<and> mode (wc_exports ''/app'' ((\<lambda>k. JUndefined)(''MODE'' := JStr ''production'')) None)
       = ''production''
   \<and> minimizer (optimization
        (wc_exports ''/app'' ((\<lambda>k. JUndefined)(''MODE'' := JStr ''production'')) None))
       = Some [TerserWebpackPlugin]"
proof -
  let ?d = "(\<lambda>k. JUndefined)(''MODE'' := JStr ''development'')"
  let ?p = "(\<lambda>k. JUndefined)(''MODE'' := JStr ''production'')"
  have d: "wc_exports ''/app'' ?d None \<in> set (wc_exports ''/app'' ?d None # webpack_factory ''/app'' ?d)"
    by simp
  have p: "wc_exports ''/app'' ?p None \<in> set (wc_exports ''/app'' ?p None # webpack_factory ''/app'' ?p)"
    by simp
  show ?thesis
    using minimizer_follows_mode [OF d] minimizer_follows_mode [OF p] by simp
qed


lemma chain_simps:
  "chain (css_rule d p) = getStyleLoaders d p"
  "chain (scss_rule d p) = getStyleLoaders d (p @ [''scss''])"
  "chain image_rule = []"
  "chain font_rule = []"
  "chain xml_rule = [Loader ''xml-loader'']"
  "chain csv_rule = [Loader ''csv-loader'']"
  "chain (babel_rule src ps) = [LoaderObject ''babel-loader'' (BabelOptions (getBabelOpts ps))]"
  by (simp_all add: chain_def css_rule_def scss_rule_def image_rule_def font_rule_def
      xml_rule_def csv_rule_def babel_rule_def)

lemma getBabelOpts_presets: "presets (getBabelOpts ps) = ''@babel/preset-env'' # ps"
  by (cases ps) (simp_all add: getBabelOpts_def)

section \<open>C3: the flag set {scss} in production\<close>

text \<open>
  C3, as the specification states it, gives the table [image, font, script, stylesheet].
  The table for the single flag \<^verbatim>\<open>scss\<close> in production has five rules, beginning with
  the \<^verbatim>\<open>.css\<close> stylesheet rule, and the chain of its last rule holds the extraction
  loader and \<^verbatim>\<open>css-loader\<close> before the preprocessor.
\<close>

theorem scss_production_table_has_five_rules:
  "\<not> (\<exists>r. rules (getModuleRules False [''scss'']) = [image_rule, font_rule, js_rule, r])
   \<and> length (rules (getModuleRules False [''scss''])) = 5
   \<and> rules (getModuleRules False [''scss'']) ! 0 = css_rule False []
   \<and> chain (rules (getModuleRules False [''scss'']) ! 4) =
       [MiniCssExtractPlugin_loader, Loader ''css-loader'', Loader ''sass-loader'']"
  by (simp add: getModuleRules_eq stylesPreset_of_eq chain_simps getStyleLoaders_chain)

text \<open>
  C3, amended. When the flags are exactly \<^verbatim>\<open>scss\<close> and the mode is production, the
  table is exactly [\<^verbatim>\<open>.css\<close> rule, image rule, font rule, script rule, \<^verbatim>\<open>.scss\<close>
  rule]; the chain of the \<^verbatim>\<open>.css\<close> rule is extraction loader, \<^verbatim>\<open>css-loader\<close>, and
  the chain of the \<^verbatim>\<open>.scss\<close> rule is extraction loader, \<^verbatim>\<open>css-loader\<close>,
  \<^verbatim>\<open>sass-loader\<close>, with no utility-css and no scoped-class-name processor. The variant
  of the factory with this table is \<^verbatim>\<open>html-scss-js\<close>; the plugin list of every variant
  includes the stylesheet-extraction plugin, and no chain of the table uses
  \<^verbatim>\<open>style-loader\<close>.
\<close>

theorem scss_production_table:
  assumes "set fs = {''scss''}" and "\<not> isDev env"
  shows "rules (getModuleRules (isDev env) fs) =
           [css_rule False [], image_rule, font_rule, js_rule, scss_rule False []]
       \<and> map chain (rules (getModuleRules (isDev env) fs)) =
           [[MiniCssExtractPlugin_loader, Loader ''css-loader''], [], [],
            [LoaderObject ''babel-loader'' (BabelOptions \<lparr>presets = [''@babel/preset-env'']\<rparr>)],
            [MiniCssExtractPlugin_loader, Loader ''css-loader'', Loader ''sass-loader'']]
       \<and> map name (filter (\<lambda>cfg. module cfg = getModuleRules (isDev env) fs)
                      (webpack_factory dirname env)) = [Some ''html-scss-js'']
       \<and> list_all (\<lambda>cfg. MiniCssExtractPlugin ''[name].[hash].css'' \<in> set (plugins cfg))
            (webpack_factory dirname env)
       \<and> list_all (\<lambda>r. Loader ''style-loader'' \<notin> set (chain r))
            (rules (getModuleRules (isDev env) fs))"
proof -
  have mem: "''scss'' \<in> set fs" "''tailwind'' \<notin> set fs" "''css-modules'' \<notin> set fs"
    "''xml'' \<notin> set fs" "''csv'' \<notin> set fs" "''ts'' \<notin> set fs" "''react'' \<notin> set fs"
    using assms(1) by simp_all
  have r: "rules (getModuleRules (isDev env) fs) =
           [css_rule False [], image_rule, font_rule, js_rule, scss_rule False []]"
    using mem assms(2) by (simp add: getModuleRules_eq stylesPreset_of_eq)
  have g: "getModuleRules (isDev env) fs =
      \<lparr>rules = [css_rule False [], image_rule, font_rule, js_rule, scss_rule False []]\<rparr>"
    using r by (cases "getModuleRules (isDev env) fs") simp
  have c: "map chain (rules (getModuleRules (isDev env) fs)) =
           [[MiniCssExtractPlugin_loader, Loader ''css-loader''], [], [],
            [LoaderObject ''babel-loader'' (BabelOptions \<lparr>presets = [''@babel/preset-env'']\<rparr>)],
            [MiniCssExtractPlugin_loader, Loader ''css-loader'', Loader ''sass-loader'']]"
    by (simp add: r chain_simps getStyleLoaders_chain js_rule_def getBabelOpts_def)
  have n: "map name (filter (\<lambda>cfg. module cfg = getModuleRules (isDev env) fs)
                      (webpack_factory dirname env)) = [Some ''html-scss-js'']"
    using assms(2) unfolding g
    by (simp add: webpack_factory_def mainConfigOptions_def Let_def getModuleRules_eq
        stylesPreset_of_eq css_rule_def getStyleLoaders_chain)
  have p: "list_all (\<lambda>cfg. MiniCssExtractPlugin ''[name].[hash].css'' \<in> set (plugins cfg))
            (webpack_factory dirname env)"
    by (simp add: webpack_factory_def mainConfigOptions_def Let_def)
  have s: "list_all (\<lambda>r. Loader ''style-loader'' \<notin> set (chain r))
            (rules (getModuleRules (isDev env) fs))"
    by (simp add: r chain_simps getStyleLoaders_chain js_rule_def)
  show ?thesis
    using r c n p s by (intro conjI)
qed

text \<open>C3 at the flag list [scss] and an environment without \<^verbatim>\<open>MODE\<close>.\<close>

theorem scss_production_table_witness:
  "set [''scss''] = {''scss''}
   \<and> \<not> isDev (\<lambda>k. JUndefined)
   \<and> rules (getModuleRules (isDev (\<lambda>k. JUndefined)) [''scss'']) =
           [css_rule False [], image_rule, font_rule, js_rule, scss_rule False []]"
proof -
  have a: "set [''scss''] = {''scss''}" by simp
  have b: "\<not> isDev (\<lambda>k. JUndefined)" by (simp add: isDev_def)
  show ?thesis
    using a b scss_production_table [OF a b, of "''/app''"] by simp
qed

section \<open>C4: the typed-syntax preset of the component-syntax rule\<close>

text \<open>
  C4. For every flag list containing both \<^verbatim>\<open>ts\<close> and \<^verbatim>\<open>react\<close>, the
  component-syntax rule is the last rule of the table and the only one for
  \<^verbatim>\<open>/\.[jt]sx$/\<close>; its preset list is env, react, typescript, in which
  \<^verbatim>\<open>@babel/preset-typescript\<close> occurs exactly once.
\<close>

theorem react_rule_typescript_preset_once:
  assumes "''ts'' \<in> set fs" and "''react'' \<in> set fs"
  shows "last (rules (getModuleRules d fs)) = react_rule fs
       \<and> filter (\<lambda>r. test r = RegExp (bsl @ ''.[jt]sx$'') []) (rules (getModuleRules d fs))
           = [react_rule fs]
       \<and> rule_presets (react_rule fs) =
           [''@babel/preset-env'', ''@babel/preset-react'', ''@babel/preset-typescript'']
       \<and> count_list (rule_presets (react_rule fs)) ''@babel/preset-typescript'' = 1"
proof -
  have l: "last (rules (getModuleRules d fs)) = react_rule fs"
    using assms by (simp add: getModuleRules_eq)
  have t: "test (css_rule d p) \<noteq> RegExp (bsl @ ''.[jt]sx$'') []"
    "test (scss_rule d p) \<noteq> RegExp (bsl @ ''.[jt]sx$'') []"
    "test image_rule \<noteq> RegExp (bsl @ ''.[jt]sx$'') []"
    "test font_rule \<noteq> RegExp (bsl @ ''.[jt]sx$'') []"
    "test js_rule \<noteq> RegExp (bsl @ ''.[jt]sx$'') []"
    "test xml_rule \<noteq> RegExp (bsl @ ''.[jt]sx$'') []"
    "test csv_rule \<noteq> RegExp (bsl @ ''.[jt]sx$'') []"
    "test ts_rule \<noteq> RegExp (bsl @ ''.[jt]sx$'') []"
    "test (react_rule fs) = RegExp (bsl @ ''.[jt]sx$'') []" for p
    by (simp_all add: css_rule_def scss_rule_def image_rule_def font_rule_def js_rule_def
        xml_rule_def csv_rule_def ts_rule_def react_rule_eq babel_rule_def)
  have f: "filter (\<lambda>r. test r = RegExp (bsl @ ''.[jt]sx$'') []) (rules (getModuleRules d fs))
           = [react_rule fs]"
    using assms by (simp add: getModuleRules_eq t)
  have p: "rule_presets (react_rule fs) =
           [''@babel/preset-env'', ''@babel/preset-react'', ''@babel/preset-typescript'']"
    using assms(1)
    by (simp add: rule_presets_def react_rule_eq chain_simps getBabelOpts_presets)
  show ?thesis
    by (simp add: l f p)
qed

text \<open>C4 at the flags of the variant \<^verbatim>\<open>react-ts-scss-cssModules\<close>.\<close>

theorem react_rule_typescript_preset_once_witness:
  "''ts'' \<in> set [''scss'', ''react'', ''ts'', ''css-modules'']
   \<and> ''react'' \<in> set [''scss'', ''react'', ''ts'', ''css-modules'']
   \<and> count_list (rule_presets (last (rules
        (getModuleRules True [''scss'', ''react'', ''ts'', ''css-modules''])))) 
        ''@babel/preset-typescript'' = 1"
proof -
  have a: "''ts'' \<in> set [''scss'', ''react'', ''ts'', ''css-modules'']" by simp
  have b: "''react'' \<in> set [''scss'', ''react'', ''ts'', ''css-modules'']" by simp
  show ?thesis
    using a b react_rule_typescript_preset_once [OF a b, of True] by simp
qed


section \<open>C5: the configuration is a function of mode, port and flags\<close>

text \<open>
  C5. Two environments that agree on \<^verbatim>\<open>MODE\<close> and on \<^verbatim>\<open>PORT\<close> give the same list
  of configurations (and the same static export), whatever else they hold; and
  \<open>getModuleRules\<close> gives the same table for two flag lists with the same elements, in any
  order and with any repetition. Plugin constructors and calls into \<^verbatim>\<open>path\<close> are kept as
  terms, so what those libraries do inside is not part of this statement.
\<close>

theorem factory_determined_by_mode_and_port:
  assumes "env1 ''MODE'' = env2 ''MODE''" and "env1 ''PORT'' = env2 ''PORT''"
    and "set fs = set gs"
  shows "webpack_factory dirname env1 = webpack_factory dirname env2
       \<and> wc_exports dirname env1 parsed = wc_exports dirname env2 parsed
       \<and> getModuleRules (isDev env1) fs = getModuleRules (isDev env2) gs"
proof -
  have d: "isDev env1 = isDev env2"
    using assms(1) by (simp add: isDev_def)
  have p: "PORT env1 = PORT env2"
    using assms(2) by (simp add: PORT_def)
  have m: "MODE_DEV env1 = MODE_DEV env2"
    using d by (simp add: MODE_DEV_def)
  have o: "mainConfigOptions dirname env1 = mainConfigOptions dirname env2"
    by (simp add: mainConfigOptions_def d p m)
  have f: "webpack_factory dirname env1 = webpack_factory dirname env2"
    by (simp add: webpack_factory_def o d)
  have w: "wc_exports dirname env1 parsed = wc_exports dirname env2 parsed"
    by (simp add: wc_exports_def d p m)
  have g: "getModuleRules (isDev env1) fs = getModuleRules (isDev env2) gs"
    unfolding d by (rule getModuleRules_flags_only) (simp_all add: assms(3))
  show ?thesis
    using f w g by (intro conjI)
qed

text \<open>C5 at two environments that differ in a property the factory does not read.\<close>

theorem factory_determined_by_mode_and_port_witness:
  "((\<lambda>k. JUndefined)(''MODE'' := JStr ''dev'', ''HOME'' := JStr ''/root'')) ''MODE''
     = ((\<lambda>k. JUndefined)(''MODE'' := JStr ''dev'')) ''MODE''
   \<and> ((\<lambda>k. JUndefined)(''MODE'' := JStr ''dev'', ''HOME'' := JStr ''/root'')) ''PORT''
     = ((\<lambda>k. JUndefined)(''MODE'' := JStr ''dev'')) ''PORT''
   \<and> set [''scss'', ''ts'', ''scss''] = set [''ts'', ''scss'']
   \<and> webpack_factory ''/app''
         ((\<lambda>k. JUndefined)(''MODE'' := JStr ''dev'', ''HOME'' := JStr ''/root''))
       = webpack_factory ''/app'' ((\<lambda>k. JUndefined)(''MODE'' := JStr ''dev''))
   \<and> getModuleRules
         (isDev ((\<lambda>k. JUndefined)(''MODE'' := JStr ''dev'', ''HOME'' := JStr ''/root'')))
         [''scss'', ''ts'', ''scss'']
       = getModuleRules (isDev ((\<lambda>k. JUndefined)(''MODE'' := JStr ''dev''))) [''ts'', ''scss'']"
proof -
  let ?e1 = "(\<lambda>k. JUndefined)(''MODE'' := JStr ''dev'', ''HOME'' := JStr ''/root'')"
  let ?e2 = "(\<lambda>k. JUndefined)(''MODE'' := JStr ''dev'')"
  have a: "?e1 ''MODE'' = ?e2 ''MODE''" by simp
  have b: "?e1 ''PORT'' = ?e2 ''PORT''" by simp
  have c: "set [''scss'', ''ts'', ''scss''] = set [''ts'', ''scss'']" by auto
  show ?thesis
    using a b c factory_determined_by_mode_and_port [OF a b c, of "''/app''" None] by blast
qed

section \<open>C6: unknown flags\<close>

text \<open>
  C6. For every flag list and every flag \<open>u\<close> outside scss, tailwind, css-modules, xml,
  csv, ts, react, adding \<open>u\<close> anywhere in the list leaves the result of \<open>getModuleRules\<close>
  unchanged; \<open>u\<close> alone gives the four default rules. The function has no error result and
  no other output through which \<open>u\<close> could be reported.
\<close>

theorem unknown_flag_ignored:
  assumes "u \<notin> {''scss'', ''tailwind'', ''css-modules'', ''xml'', ''csv'', ''ts'', ''react''}"
  shows "getModuleRules d (xs @ u # ys) = getModuleRules d (xs @ ys)
       \<and> rules (getModuleRules d [u]) = [css_rule d [], image_rule, font_rule, js_rule]"
proof -
  have a: "getModuleRules d (xs @ u # ys) = getModuleRules d (xs @ ys)"
    by (rule getModuleRules_flags_only) (use assms in auto)
  have b: "rules (getModuleRules d [u]) = [css_rule d [], image_rule, font_rule, js_rule]"
    using assms by (auto simp add: getModuleRules_eq stylesPreset_of_eq)
  show ?thesis
    using a b by (intro conjI)
qed

text \<open>C6 at the unknown flag \<^verbatim>\<open>vue\<close>.\<close>

theorem unknown_flag_ignored_witness:
  "''vue'' \<notin> {''scss'', ''tailwind'', ''css-modules'', ''xml'', ''csv'', ''ts'', ''react''}
   \<and> getModuleRules False ([''scss''] @ ''vue'' # [''react'']) =
       getModuleRules False ([''scss''] @ [''react''])"
proof -
  have a: "''vue'' \<notin> {''scss'', ''tailwind'', ''css-modules'', ''xml'', ''csv'', ''ts'', ''react''}"
    by simp
  show ?thesis
    using a unknown_flag_ignored [OF a, of False "[''scss'']" "[''react'']"] by simp
qed


lemma wc_getStyleLoaders_chain:
  "wc_getStyleLoaders d p =
     [if d then Loader ''style-loader'' else MiniCssExtractPlugin_loader, Loader ''css-loader'']
     @ (if Some ''tailwind'' \<in> set p then [Loader ''postcss-loader''] else [])
     @ (if Some ''scss'' \<in> set p then [Loader ''sass-loader''] else [])"
  by (simp add: wc_getStyleLoaders_def findIndex_eq_none)

lemma wc_chain_simps:
  "chain (wc_css_rule d t) = wc_getStyleLoaders d [t]"
  "chain (wc_scss_rule d fs) =
     wc_getStyleLoaders d
       (Some ''scss'' # (if ''tailwind'' \<in> set fs then [Some ''tailwind''] else []))"
  by (simp_all add: chain_def wc_css_rule_def wc_scss_rule_def findIndex_eq_none)

section \<open>C7: utility-css before the preprocessor\<close>

text \<open>
  C7. Whenever both \<^verbatim>\<open>scss\<close> and \<^verbatim>\<open>tailwind\<close> are among the flags, the rule
  appended for \<^verbatim>\<open>/\.s[ac]ss$/\<close> (the fifth rule) has the chain: style or extraction
  loader, css loader, \<^verbatim>\<open>postcss-loader\<close>, \<^verbatim>\<open>sass-loader\<close>. Both processors occur,
  \<^verbatim>\<open>postcss-loader\<close> at index 2 and \<^verbatim>\<open>sass-loader\<close> at index 3. The same holds in
  the static configuration file.
\<close>

theorem postcss_before_sass:
  assumes "''scss'' \<in> set fs" and "''tailwind'' \<in> set fs"
  shows "rules (getModuleRules d fs) ! 4 = scss_rule d (stylesPreset_of fs)
       \<and> chain (scss_rule d (stylesPreset_of fs)) =
           [if d then Loader ''style-loader'' else MiniCssExtractPlugin_loader,
            if ''css-modules'' \<in> set fs then css_loader_modules else Loader ''css-loader'',
            Loader ''postcss-loader'', Loader ''sass-loader'']
       \<and> findIndex (\<lambda>e. e = Loader ''postcss-loader'') (chain (scss_rule d (stylesPreset_of fs)))
           = 2
       \<and> findIndex (\<lambda>e. e = Loader ''sass-loader'') (chain (scss_rule d (stylesPreset_of fs)))
           = 3
       \<and> rules (wc_getModuleRules d fs) ! 4 = wc_scss_rule d fs
       \<and> chain (wc_scss_rule d fs) =
           [if d then Loader ''style-loader'' else MiniCssExtractPlugin_loader,
            Loader ''css-loader'', Loader ''postcss-loader'', Loader ''sass-loader'']"
proof -
  have a: "rules (getModuleRules d fs) ! 4 = scss_rule d (stylesPreset_of fs)"
    using assms(1) by (simp add: getModuleRules_eq)
  have b: "chain (scss_rule d (stylesPreset_of fs)) =
           [if d then Loader ''style-loader'' else MiniCssExtractPlugin_loader,
            if ''css-modules'' \<in> set fs then css_loader_modules else Loader ''css-loader'',
            Loader ''postcss-loader'', Loader ''sass-loader'']"
    using assms(2) by (simp add: chain_simps getStyleLoaders_chain stylesPreset_of_eq)
  have c: "findIndex (\<lambda>e. e = Loader ''postcss-loader'')
             (chain (scss_rule d (stylesPreset_of fs))) = 2"
    unfolding b by (simp add: findIndex_def css_loader_modules_def)
  have e: "findIndex (\<lambda>e. e = Loader ''sass-loader'')
             (chain (scss_rule d (stylesPreset_of fs))) = 3"
    unfolding b by (simp add: findIndex_def css_loader_modules_def)
  have f: "rules (wc_getModuleRules d fs) ! 4 = wc_scss_rule d fs"
    using assms(1) by (simp add: wc_getModuleRules_eq)
  have g: "chain (wc_scss_rule d fs) =
           [if d then Loader ''style-loader'' else MiniCssExtractPlugin_loader,
            Loader ''css-loader'', Loader ''postcss-loader'', Loader ''sass-loader'']"
    using assms(2) by (simp add: wc_chain_simps wc_getStyleLoaders_chain)
  show ?thesis
    using a b c e f g by (intro conjI)
qed

text \<open>C7 at the flags of the variant \<^verbatim>\<open>html-scss-js-tailwind\<close>, in production.\<close>

theorem postcss_before_sass_witness:
  "''scss'' \<in> set [''scss'', ''tailwind'']
   \<and> ''tailwind'' \<in> set [''scss'', ''tailwind'']
   \<and> chain (rules (getModuleRules False [''scss'', ''tailwind'']) ! 4) =
       [MiniCssExtractPlugin_loader, Loader ''css-loader'', Loader ''postcss-loader'',
        Loader ''sass-loader'']"
proof -
  have a: "''scss'' \<in> set [''scss'', ''tailwind'']" by simp
  have b: "''tailwind'' \<in> set [''scss'', ''tailwind'']" by simp
  show ?thesis
    using a b postcss_before_sass [OF a b, of False] by simp
qed

section \<open>C8: the port of the development server\<close>

text \<open>
  C8. The environment object handed to the factory is built by the bundler's command line
  from its \<^verbatim>\<open>--env\<close> options: a key that is not given reads \<^verbatim>\<open>undefined\<close>, a key
  given without a value is \<^verbatim>\<open>true\<close>, and a key given with a value holds that value as
  a non-empty string. In every variant the factory produces, for every mode: when
  \<^verbatim>\<open>PORT\<close> is not given the port of the development server is 3000, and when it is
  given, as the string of a port or as the bare key, that value is the port.
\<close>

theorem supplied_port_is_used:
  assumes "cfg \<in> set (webpack_factory dirname env)"
  shows "(env ''PORT'' = JUndefined \<longrightarrow> port (devServer cfg) = JNum 3000)
       \<and> (env ''PORT'' = JStr s \<longrightarrow> s \<noteq> [] \<longrightarrow> port (devServer cfg) = JStr s)
       \<and> (env ''PORT'' = JBool True \<longrightarrow> port (devServer cfg) = JBool True)"
proof -
  have "cfg \<in> set (wc_exports dirname env None # webpack_factory dirname env)"
    using assms by simp
  then have p: "port (devServer cfg) = PORT env"
    using factory_cases by blast
  show ?thesis
    unfolding p by (simp add: PORT_def js_or_def)
qed

text \<open>C8 without a port on the first variant, with the port \<^verbatim>\<open>8080\<close> in development
  mode on the fourth, and with the bare key on the second.\<close>

theorem supplied_port_is_used_witness:
  "webpack_factory ''/app'' (\<lambda>k. JUndefined) ! 0
     \<in> set (webpack_factory ''/app'' (\<lambda>k. JUndefined))
   \<and> (\<lambda>k. JUndefined) ''PORT'' = JUndefined
   \<and> port (devServer (webpack_factory ''/app'' (\<lambda>k. JUndefined) ! 0)) = JNum 3000
   \<and> webpack_factory ''/app''
         ((\<lambda>k. JUndefined)(''MODE'' := JStr ''development'', ''PORT'' := JStr ''8080'')) ! 3
     \<in> set (webpack_factory ''/app''
         ((\<lambda>k. JUndefined)(''MODE'' := JStr ''development'', ''PORT'' := JStr ''8080'')))
   \<and> ((\<lambda>k. JUndefined)(''MODE'' := JStr ''development'', ''PORT'' := JStr ''8080'')) ''PORT''
       = JStr ''8080''
   \<and> ''8080'' \<noteq> []
   \<and> port (devServer (webpack_factory ''/app''
         ((\<lambda>k. JUndefined)(''MODE'' := JStr ''development'', ''PORT'' := JStr ''8080'')) ! 3))
       = JStr ''8080''
   \<and> webpack_factory ''/app'' ((\<lambda>k. JUndefined)(''PORT'' := JBool True)) ! 1
     \<in> set (webpack_factory ''/app'' ((\<lambda>k. JUndefined)(''PORT'' := JBool True)))
   \<and> ((\<lambda>k. JUndefined)(''PORT'' := JBool True)) ''PORT'' = JBool True
   \<and> port (devServer (webpack_factory ''/app'' ((\<lambda>k. JUndefined)(''PORT'' := JBool True)) ! 1))
       = JBool True"
proof -
  let ?u = "\<lambda>k::string. JUndefined"
  let ?s = "(\<lambda>k. JUndefined)(''MODE'' := JStr ''development'', ''PORT'' := JStr ''8080'')"
  let ?t = "(\<lambda>k. JUndefined)(''PORT'' := JBool True)"
  have u: "webpack_factory ''/app'' ?u ! 0 \<in> set (webpack_factory ''/app'' ?u)"
    by (simp add: webpack_factory_def Let_def)
  have s: "webpack_factory ''/app'' ?s ! 3 \<in> set (webpack_factory ''/app'' ?s)"
    by (simp add: webpack_factory_def Let_def)
  have t: "webpack_factory ''/app'' ?t ! 1 \<in> set (webpack_factory ''/app'' ?t)"
    by (simp add: webpack_factory_def Let_def)
  have pu: "?u ''PORT'' = JUndefined" by simp
  have ps: "?s ''PORT'' = JStr ''8080''" by simp
  have pt: "?t ''PORT'' = JBool True" by simp
  have ne: "''8080'' \<noteq> []" by simp
  show ?thesis
    using u s t pu ps pt ne
      supplied_port_is_used [OF u, of "[]"]
      supplied_port_is_used [OF s, of "''8080''"]
      supplied_port_is_used [OF t, of "[]"]
    by blast
qed

lemma is_style_rule_simps:
  "is_style_rule (css_rule d p)"
  "is_style_rule (scss_rule d p)"
  "is_style_rule (wc_css_rule d t)"
  "is_style_rule (wc_scss_rule d fs)"
  "\<not> is_style_rule image_rule"
  "\<not> is_style_rule font_rule"
  "\<not> is_style_rule wc_image_rule"
  "\<not> is_style_rule wc_font_rule"
  "\<not> is_style_rule xml_rule"
  "\<not> is_style_rule csv_rule"
  "\<not> is_style_rule (babel_rule (bsl @ ''.js$'') ps)"
  "\<not> is_style_rule (babel_rule (bsl @ ''.ts$'') ps)"
  "\<not> is_style_rule (babel_rule (bsl @ ''.jsx$'') ps)"
  "\<not> is_style_rule (babel_rule (bsl @ ''.[jt]sx$'') ps)"
  by (simp_all add: is_style_rule_def css_rule_def scss_rule_def wc_css_rule_def
      wc_scss_rule_def image_rule_def font_rule_def wc_image_rule_def wc_font_rule_def
      xml_rule_def csv_rule_def babel_rule_def Let_def)

lemma style_chains_getModuleRules:
  "style_chains (getModuleRules d fs) =
     getStyleLoaders d (stylesPreset_of fs)
     # (if ''scss'' \<in> set fs then [getStyleLoaders d (stylesPreset_of fs @ [''scss''])] else [])"
  by (simp add: style_chains_def getModuleRules_eq is_style_rule_simps chain_simps
      js_rule_def ts_rule_def react_rule_eq)

lemma style_chains_wc_getModuleRules:
  "style_chains (wc_getModuleRules d fs) =
     chain (wc_css_rule d (if ''tailwind'' \<in> set fs then Some ''tailwind'' else None))
     # (if ''scss'' \<in> set fs then [chain (wc_scss_rule d fs)] else [])"
  by (simp add: style_chains_def wc_getModuleRules_eq is_style_rule_simps
      js_rule_def wc_ts_rule_def wc_react_rule_def)

lemma production_chain:
  "take (Suc 0) (getStyleLoaders False p) = [MiniCssExtractPlugin_loader]"
  "Loader ''style-loader'' \<notin> set (getStyleLoaders False p)"
  "take (Suc 0) (wc_getStyleLoaders False q) = [MiniCssExtractPlugin_loader]"
  "Loader ''style-loader'' \<notin> set (wc_getStyleLoaders False q)"
  by (simp_all add: getStyleLoaders_chain wc_getStyleLoaders_chain css_loader_modules_def)

lemma factory_modules:
  assumes "cfg \<in> set (wc_exports dirname env parsed # webpack_factory dirname env)"
  shows "module cfg = wc_getModuleRules (isDev env) [''scss'']
       \<or> (\<exists>fs. module cfg = getModuleRules (isDev env) fs)"
  using assms
  by (auto simp add: webpack_factory_def mainConfigOptions_def wc_exports_def Let_def)

section \<open>C9: every other mode is production\<close>

text \<open>
  C9. For every \<^verbatim>\<open>MODE\<close> other than the strings \<^verbatim>\<open>development\<close> and \<^verbatim>\<open>dev\<close>
  (absent, \<^verbatim>\<open>production\<close>, any other value), every configuration produced has the mode
  \<^verbatim>\<open>production\<close> and the Terser minimizer, it has stylesheet rules, and each of their
  chains starts with the extraction loader and contains no \<^verbatim>\<open>style-loader\<close>. The same
  holds for the table of any flag list.
\<close>

theorem non_dev_mode_gives_production:
  assumes "env ''MODE'' \<noteq> JStr ''development''" and "env ''MODE'' \<noteq> JStr ''dev''"
    and "cfg \<in> set (wc_exports dirname env parsed # webpack_factory dirname env)"
  shows "mode cfg = ''production''
       \<and> minimizer (optimization cfg) = Some [TerserWebpackPlugin]
       \<and> style_chains (module cfg) \<noteq> []
       \<and> list_all (\<lambda>c. take 1 c = [MiniCssExtractPlugin_loader]
                        \<and> Loader ''style-loader'' \<notin> set c)
            (style_chains (module cfg))
       \<and> list_all (\<lambda>c. take 1 c = [MiniCssExtractPlugin_loader]
                        \<and> Loader ''style-loader'' \<notin> set c)
            (style_chains (getModuleRules (isDev env) fs))"
proof -
  have d: "\<not> isDev env"
    using assms(1,2) by (simp add: isDev_def)
  have m: "mode cfg = ''production''"
    "minimizer (optimization cfg) = Some [TerserWebpackPlugin]"
    using factory_cases [OF assms(3)] d by (simp_all add: getOptimization_def)
  have g: "list_all (\<lambda>c. take 1 c = [MiniCssExtractPlugin_loader]
                        \<and> Loader ''style-loader'' \<notin> set c)
            (style_chains (getModuleRules False gs))"
    "style_chains (getModuleRules False gs) \<noteq> []" for gs
    by (simp_all add: style_chains_getModuleRules production_chain)
  have w: "list_all (\<lambda>c. take 1 c = [MiniCssExtractPlugin_loader]
                        \<and> Loader ''style-loader'' \<notin> set c)
            (style_chains (wc_getModuleRules False gs))"
    "style_chains (wc_getModuleRules False gs) \<noteq> []" for gs
    by (simp_all add: style_chains_wc_getModuleRules wc_chain_simps production_chain)
  have c: "style_chains (module cfg) \<noteq> []
       \<and> list_all (\<lambda>c. take 1 c = [MiniCssExtractPlugin_loader]
                        \<and> Loader ''style-loader'' \<notin> set c)
            (style_chains (module cfg))"
    using factory_modules [OF assms(3)] d g w by auto
  show ?thesis
    using m c g(1) [of fs] d by simp
qed

text \<open>C9 at an environment without \<^verbatim>\<open>MODE\<close>, on the third variant.\<close>

theorem non_dev_mode_gives_production_witness:
  "(\<lambda>k. JUndefined) ''MODE'' \<noteq> JStr ''development''
   \<and> (\<lambda>k. JUndefined) ''MODE'' \<noteq> JStr ''dev''
   \<and> (webpack_factory ''/app'' (\<lambda>k. JUndefined) ! 2)
       \<in> set (wc_exports ''/app'' (\<lambda>k. JUndefined) None
              # webpack_factory ''/app'' (\<lambda>k. JUndefined))
   \<and> mode ((webpack_factory ''/app'' (\<lambda>k. JUndefined) ! 2)) = ''production''
   \<and> minimizer (optimization ((webpack_factory ''/app'' (\<lambda>k. JUndefined) ! 2)))
       = Some [TerserWebpackPlugin]"
proof -
  let ?u = "\<lambda>k::string. JUndefined"
  have a: "?u ''MODE'' \<noteq> JStr ''development''" by simp
  have b: "?u ''MODE'' \<noteq> JStr ''dev''" by simp
  have c: "(webpack_factory ''/app'' ?u ! 2)
       \<in> set (wc_exports ''/app'' ?u None # webpack_factory ''/app'' ?u)"
    by (simp add: webpack_factory_def Let_def)
  show ?thesis
    using a b c non_dev_mode_gives_production [OF a b c] by blast
qed

lemma with_css_modules_chain:
  "map with_css_modules (getStyleLoaders d p) = getStyleLoaders d (''css-modules'' # p)"
  by (simp add: getStyleLoaders_chain css_loader_modules_def)

lemma rule_with_css_modules_simps:
  "rule_with_css_modules (css_rule d p) = css_rule d (''css-modules'' # p)"
  "rule_with_css_modules (scss_rule d p) = scss_rule d (''css-modules'' # p)"
  "rule_with_css_modules image_rule = image_rule"
  "rule_with_css_modules font_rule = font_rule"
  "rule_with_css_modules xml_rule = xml_rule"
  "rule_with_css_modules csv_rule = csv_rule"
  "rule_with_css_modules (babel_rule src ps) = babel_rule src ps"
  by (simp_all add: rule_with_css_modules_def css_rule_def scss_rule_def image_rule_def
      font_rule_def xml_rule_def csv_rule_def babel_rule_def with_css_modules_chain
      with_css_modules_chain [of d "p @ [''scss'']", simplified])

lemma getStyleLoaders_flags_only:
  assumes "(''css-modules'' \<in> set p) = (''css-modules'' \<in> set q)"
    and "(''tailwind'' \<in> set p) = (''tailwind'' \<in> set q)"
    and "(''scss'' \<in> set p) = (''scss'' \<in> set q)"
  shows "getStyleLoaders d p = getStyleLoaders d q"
  using assms by (simp add: getStyleLoaders_chain)

section \<open>C10: scoped class names\<close>

text \<open>
  C10. Adding the flag \<^verbatim>\<open>css-modules\<close> appends no rule: the table is the old table
  with the plain \<^verbatim>\<open>css-loader\<close> entry of every chain replaced by the modules-configured
  one, so the length is the same. The second entry of the chain of the \<^verbatim>\<open>.css\<close> rule,
  and of the \<^verbatim>\<open>.scss\<close> rule when \<^verbatim>\<open>scss\<close> is supplied, is the modules-configured
  loader when the flag is present and the string \<^verbatim>\<open>css-loader\<close> otherwise. The
  modules-configured entry names the loader \<^verbatim>\<open>css-loader\<close> and its \<^verbatim>\<open>auto\<close> pattern is
  \<^verbatim>\<open>/\.module\.\w+/i\<close>.
\<close>

theorem css_modules_replaces_css_loader:
  "rules (getModuleRules d (''css-modules'' # fs)) =
     map rule_with_css_modules (rules (getModuleRules d fs))
   \<and> length (rules (getModuleRules d (''css-modules'' # fs))) =
       length (rules (getModuleRules d fs))
   \<and> chain (rules (getModuleRules d fs) ! 0) =
       [if d then Loader ''style-loader'' else MiniCssExtractPlugin_loader,
        if ''css-modules'' \<in> set fs then css_loader_modules else Loader ''css-loader'']
       @ (if ''tailwind'' \<in> set fs then [Loader ''postcss-loader''] else [])
   \<and> (''scss'' \<in> set fs \<longrightarrow>
        chain (rules (getModuleRules d fs) ! 4) =
          [if d then Loader ''style-loader'' else MiniCssExtractPlugin_loader,
           if ''css-modules'' \<in> set fs then css_loader_modules else Loader ''css-loader'']
          @ (if ''tailwind'' \<in> set fs then [Loader ''postcss-loader''] else [])
          @ [Loader ''sass-loader''])
   \<and> loader css_loader_modules = ''css-loader''
   \<and> auto (modules (options css_loader_modules)) =
       RegExp (bsl @ ''.module'' @ bsl @ ''.'' @ bsl @ ''w+'') ''i''"
proof -
  have sp: "getStyleLoaders d (stylesPreset_of (''css-modules'' # fs) @ extra) =
            getStyleLoaders d (''css-modules'' # stylesPreset_of fs @ extra)" for extra
    by (rule getStyleLoaders_flags_only) (auto simp add: stylesPreset_of_eq)
  have cr: "css_rule d (stylesPreset_of (''css-modules'' # fs)) =
            css_rule d (''css-modules'' # stylesPreset_of fs)"
    using sp [of "[]"] by (simp add: css_rule_def)
  have sr: "scss_rule d (stylesPreset_of (''css-modules'' # fs)) =
            scss_rule d (''css-modules'' # stylesPreset_of fs)"
    using sp [of "[''scss'']"] by (simp add: scss_rule_def)
  have a: "rules (getModuleRules d (''css-modules'' # fs)) =
           map rule_with_css_modules (rules (getModuleRules d fs))"
    by (simp add: getModuleRules_eq rule_with_css_modules_simps cr sr js_rule_def ts_rule_def
        react_rule_eq)
  have b: "length (rules (getModuleRules d (''css-modules'' # fs))) =
           length (rules (getModuleRules d fs))"
    by (simp add: a)
  have c: "chain (rules (getModuleRules d fs) ! 0) =
       [if d then Loader ''style-loader'' else MiniCssExtractPlugin_loader,
        if ''css-modules'' \<in> set fs then css_loader_modules else Loader ''css-loader'']
       @ (if ''tailwind'' \<in> set fs then [Loader ''postcss-loader''] else [])"
    by (simp add: getModuleRules_eq chain_simps getStyleLoaders_chain stylesPreset_of_eq)
  have e: "''scss'' \<in> set fs \<longrightarrow>
        chain (rules (getModuleRules d fs) ! 4) =
          [if d then Loader ''style-loader'' else MiniCssExtractPlugin_loader,
           if ''css-modules'' \<in> set fs then css_loader_modules else Loader ''css-loader'']
          @ (if ''tailwind'' \<in> set fs then [Loader ''postcss-loader''] else [])
          @ [Loader ''sass-loader'']"
    by (simp add: getModuleRules_eq chain_simps getStyleLoaders_chain stylesPreset_of_eq)
  have f: "loader css_loader_modules = ''css-loader''"
    "auto (modules (options css_loader_modules)) =
       RegExp (bsl @ ''.module'' @ bsl @ ''.'' @ bsl @ ''w+'') ''i''"
    by (simp_all add: css_loader_modules_def)
  show ?thesis
    using a b c e f by (intro conjI)
qed

text \<open>C10 with and without the flag, in development mode.\<close>

theorem css_modules_replaces_css_loader_witness:
  "''scss'' \<in> set [''scss'', ''css-modules'']
   \<and> chain (rules (getModuleRules True [''scss'', ''css-modules'']) ! 4) =
       [Loader ''style-loader'', css_loader_modules, Loader ''sass-loader'']
   \<and> chain (rules (getModuleRules True [''scss'', ''css-modules'']) ! 0) =
       [Loader ''style-loader'', css_loader_modules]
   \<and> length (rules (getModuleRules True [''css-modules'', ''scss''])) =
       length (rules (getModuleRules True [''scss'']))"
proof -
  have a: "''scss'' \<in> set [''scss'', ''css-modules'']" by simp
  show ?thesis
    using a css_modules_replaces_css_loader [of True "[''scss'', ''css-modules'']"] css_modules_replaces_css_loader [of True "[''scss'']"]
    by simp
qed

end
